theory Spec2Isabelle
  imports Complex_Main
begin

section \<open>JavaScript values\<close>

text \<open>
  The class \<open>ExpressAppConfig\<close> of \<open>src/middleware/express.app.config.ts\<close> works on
  untyped option objects: it tests them with \<open>||\<close>, \<open>!\<close>, \<open>!= undefined\<close> and
  \<open>typeof\<close>, reads their properties and, in one place, writes one. The values are
  therefore modelled as JavaScript has them: primitives, and references into a heap of
  objects.

  A finite Number is written as the decimal \<open>Fin neg m e\<close>, that is \<open>\<plusminus> m \<times> 10\<^sup>e\<close>, that
  the language prints for it (the shortest decimal that identifies the Number): the
  only operation of this program on the digits of a Number is \<open>parseInt\<close>, which reads
  that text. An integer of the safe range, up to \<open>2\<^sup>5\<^sup>3 - 1\<close> in absolute value, is its
  own decimal (\<open>Number_of_int\<close>). The two zeros are not told apart (no operation of this
  program does). Strings are lists of code units below 256.
\<close>

datatype jsnum = NaN | PosInfinity | NegInfinity | Fin bool nat int

type_synonym ref = nat

datatype jsval = Undefined | Null | Bool bool | Num jsnum | Str string | Ref ref

type_synonym object = "string \<Rightarrow> jsval option"

type_synonym heap = "ref \<Rightarrow> object"

datatype error =
    TypeError
  | SystemError string
  | YAMLException string
  | Thrown string

text \<open>The mathematical value of a finite Number (0 for the others, never used there).\<close>

definition num_value :: "jsnum \<Rightarrow> rat" where
  "num_value x =
     (case x of
        Fin neg m e \<Rightarrow>
          (if neg then - 1 else 1) * of_nat m *
          (if 0 \<le> e then 10 ^ nat e else 1 / 10 ^ nat (- e))
      | _ \<Rightarrow> 0)"

definition Number_of_int :: "int \<Rightarrow> jsnum" where
  "Number_of_int i = Fin (i < 0) (nat \<bar>i\<bar>) 0"

definition MAX_SAFE_INTEGER :: int where
  "MAX_SAFE_INTEGER = 2 ^ 53 - 1"

text \<open>\<open>ToBoolean\<close>: what \<open>||\<close> and \<open>!\<close> test.\<close>

fun truthy :: "jsval \<Rightarrow> bool" where
  "truthy Undefined = False"
| "truthy Null = False"
| "truthy (Bool b) = b"
| "truthy (Num NaN) = False"
| "truthy (Num (Fin neg m e)) = (m \<noteq> 0)"
| "truthy (Num x) = True"
| "truthy (Str s) = (s \<noteq> [])"
| "truthy (Ref r) = True"

text \<open>\<open>a || b\<close>.\<close>

definition js_or :: "jsval \<Rightarrow> jsval \<Rightarrow> jsval" where
  "js_or a b = (if truthy a then a else b)"

text \<open>\<open>x != undefined\<close>, the loose comparison: false for \<open>undefined\<close> and \<open>null\<close> only.\<close>

fun ne_undefined :: "jsval \<Rightarrow> bool" where
  "ne_undefined Undefined = False"
| "ne_undefined Null = False"
| "ne_undefined v = True"

fun typeof :: "jsval \<Rightarrow> string" where
  "typeof Undefined = ''undefined''"
| "typeof Null = ''object''"
| "typeof (Bool b) = ''boolean''"
| "typeof (Num x) = ''number''"
| "typeof (Str s) = ''string''"
| "typeof (Ref r) = ''object''"

text \<open>
  Reading a property. On \<open>undefined\<close> and \<open>null\<close> the read throws a TypeError; on an
  object it gives the property or \<open>undefined\<close>; on another primitive it gives
  \<open>undefined\<close> (none of the names read by this program is defined on a primitive).
\<close>

fun lookup :: "heap \<Rightarrow> jsval \<Rightarrow> string \<Rightarrow> jsval" where
  "lookup h (Ref r) p = (case h r p of Some v \<Rightarrow> v | None \<Rightarrow> Undefined)"
| "lookup h v p = Undefined"

definition Get :: "heap \<Rightarrow> jsval \<Rightarrow> string \<Rightarrow> error + jsval" where
  "Get h v p = (if ne_undefined v then Inr (lookup h v p) else Inl TypeError)"

subsection \<open>Number to String\<close>

fun digits :: "nat \<Rightarrow> string" where
  "digits n =
     (if n < 10 then [''0123456789'' ! n]
      else digits (n div 10) @ [''0123456789'' ! (n mod 10)])"

declare digits.simps [simp del]

definition strip_zeros :: "string \<Rightarrow> string" where
  "strip_zeros ds = rev (dropWhile (\<lambda>c. c = CHR ''0'') (rev ds))"

text \<open>
  \<open>Number::toString\<close> for a positive finite Number with the digits \<open>ds0\<close> of \<open>m\<close>:
  \<open>k\<close> is the number of significant digits, \<open>n\<close> the position of the decimal point.
\<close>

definition render :: "string \<Rightarrow> int \<Rightarrow> string" where
  "render ds0 e =
     (let ds = strip_zeros ds0;
          k = int (length ds);
          n = int (length ds0) + e
      in if - 5 \<le> n \<and> n \<le> 21 then
           (if k \<le> n then ds @ replicate (nat (n - k)) (CHR ''0'')
            else if 0 < n then take (nat n) ds @ ''.'' @ drop (nat n) ds
            else ''0.'' @ replicate (nat (- n)) (CHR ''0'') @ ds)
         else
           (let x = n - 1;
                es = (if x < 0 then ''-'' else ''+'') @ digits (nat \<bar>x\<bar>)
            in if k = 1 then ds @ ''e'' @ es
               else take 1 ds @ ''.'' @ drop 1 ds @ ''e'' @ es))"

fun Number_toString :: "jsnum \<Rightarrow> string" where
  "Number_toString NaN = ''NaN''"
| "Number_toString PosInfinity = ''Infinity''"
| "Number_toString NegInfinity = ''-Infinity''"
| "Number_toString (Fin neg m e) =
     (if m = 0 then ''0''
      else (if neg then ''-'' else '''') @ render (digits m) e)"

fun ToString :: "jsval \<Rightarrow> string" where
  "ToString Undefined = ''undefined''"
| "ToString Null = ''null''"
| "ToString (Bool b) = (if b then ''true'' else ''false'')"
| "ToString (Num x) = Number_toString x"
| "ToString (Str s) = s"
| "ToString (Ref r) = ''[object Object]''"

subsection \<open>parseInt\<close>

text \<open>
  \<open>parseInt(string)\<close> with no radix: leading white space is dropped, then a sign, then
  a \<open>0x\<close> prefix (which selects radix 16); the longest prefix of digits is the result,
  and \<open>NaN\<close> (here \<open>None\<close>) when there is no digit. The result is a Number: the
  integer that the digits denote, rounded to the nearest double, to the even one of
  two that are equally near (\<open>roundTiesToEven\<close>). Below \<open>2\<^sup>5\<^sup>3\<close> every integer is a
  double; from there on a double has 53 significant bits. A value beyond the largest
  double, where the code has \<open>Infinity\<close>, stays a finite integer here: both compare
  above every Number a status code can be.
\<close>

fun bitlen :: "nat \<Rightarrow> nat" where
  "bitlen n = (if n = 0 then 0 else Suc (bitlen (n div 2)))"

declare bitlen.simps [simp del]

definition roundTiesToEven :: "nat \<Rightarrow> nat" where
  "roundTiesToEven n =
     (if n < 2 ^ 53 then n
      else
        (let e = bitlen n - 53;
             q = n div 2 ^ e;
             r = n mod 2 ^ e
         in (if 2 ^ (e - 1) < r \<or> (r = 2 ^ (e - 1) \<and> odd q) then q + 1 else q) * 2 ^ e))"

definition StrWhiteSpaceChar :: "char \<Rightarrow> bool" where
  "StrWhiteSpaceChar c =
     (c \<in> set [CHR 0x09, CHR 0x0A, CHR 0x0B, CHR 0x0C, CHR 0x0D, CHR 0x20, CHR 0xA0])"

definition digit_value :: "char \<Rightarrow> nat option" where
  "digit_value c =
     map_of
       [(CHR ''0'', 0), (CHR ''1'', 1), (CHR ''2'', 2), (CHR ''3'', 3), (CHR ''4'', 4),
        (CHR ''5'', 5), (CHR ''6'', 6), (CHR ''7'', 7), (CHR ''8'', 8), (CHR ''9'', 9),
        (CHR ''a'', 10), (CHR ''b'', 11), (CHR ''c'', 12), (CHR ''d'', 13),
        (CHR ''e'', 14), (CHR ''f'', 15),
        (CHR ''A'', 10), (CHR ''B'', 11), (CHR ''C'', 12), (CHR ''D'', 13),
        (CHR ''E'', 14), (CHR ''F'', 15)] c"

definition radix_digit :: "nat \<Rightarrow> char \<Rightarrow> bool" where
  "radix_digit R c = (case digit_value c of Some v \<Rightarrow> v < R | None \<Rightarrow> False)"

definition digits_value :: "nat \<Rightarrow> string \<Rightarrow> nat" where
  "digits_value R Z =
     foldl (\<lambda>acc c. acc * R + (case digit_value c of Some v \<Rightarrow> v | None \<Rightarrow> 0)) 0 Z"

definition parseInt :: "string \<Rightarrow> int option" where
  "parseInt inputString =
     (let S = dropWhile StrWhiteSpaceChar inputString;
          sign = (if take 1 S = ''-'' then - 1 else 1);
          S1 = (if take 1 S = ''+'' \<or> take 1 S = ''-'' then drop 1 S else S);
          hex = (take 2 S1 = ''0x'' \<or> take 2 S1 = ''0X'');
          R = (if hex then 16 else 10);
          S2 = (if hex then drop 2 S1 else S1);
          Z = takeWhile (radix_digit R) S2
      in if Z = [] then None
         else Some (sign * int (roundTiesToEven (digits_value R Z))))"

section \<open>Middleware\<close>

text \<open>
  A middleware is described by the call that creates it and the arguments of that call.
  \<open>'d\<close> is the document that \<open>jsyaml.load\<close> returns, \<open>'h\<close> a request handler supplied
  by the caller. The logger carries the format and the \<open>skip\<close> option: the function of
  line 93 is a closure over \<open>loggerOptions\<close>, kept as that captured value.
\<close>

datatype ('d, 'h) middleware =
    Cors jsval
  | BodyParser_urlencoded jsval
  | BodyParser_text jsval
  | BodyParser_json jsval
  | BodyParser_raw string jsval
  | Logger jsval "jsval option"
  | Express_json string
  | Express_urlencoded bool
  | CookieParser
  | SwaggerUI_serveStaticContent 'd jsval
  | OpenApiValidator_middleware jsval
  | SwaggerParameters_checkParameters
  | Custom 'h
  | SwaggerRouter_initialize jsval
  | ErrorHandler

section \<open>configureLogger\<close>

definition configureLogger :: "heap \<Rightarrow> jsval \<Rightarrow> ('d, 'h) middleware" where
  "configureLogger h loggerOptions =
     (let format = Str ''dev'';
          options = None
      in if ne_undefined loggerOptions then
           Logger
             (if ne_undefined (lookup h loggerOptions ''format'')
                 \<and> typeof (lookup h loggerOptions ''format'') = ''string''
              then lookup h loggerOptions ''format'' else format)
             (if ne_undefined (lookup h loggerOptions ''errorLimit'')
                 \<and> (typeof (lookup h loggerOptions ''errorLimit'') = ''string''
                    \<or> typeof (lookup h loggerOptions ''errorLimit'') = ''number'')
              then Some loggerOptions else options)
         else Logger format options)"

text \<open>
  The body of the function of line 93,
  \<open>res.statusCode < parseInt(loggerOptions.errorLimit)\<close>, run in the heap of the
  moment of the call on a response with the given status code, an integer. A
  comparison with \<open>NaN\<close> is false.
\<close>

definition skip :: "heap \<Rightarrow> jsval \<Rightarrow> int \<Rightarrow> error + bool" where
  "skip h loggerOptions statusCode =
     (case Get h loggerOptions ''errorLimit'' of
        Inl e \<Rightarrow> Inl e
      | Inr errorLimit \<Rightarrow>
          Inr (case parseInt (ToString errorLimit) of
                 None \<Rightarrow> False
               | Some limit \<Rightarrow> statusCode < limit))"

text \<open>
  What the logging library does with the option: a response is logged unless a
  \<open>skip\<close> function was given and returns true for it.
\<close>

fun logged :: "heap \<Rightarrow> ('d, 'h) middleware \<Rightarrow> int \<Rightarrow> bool" where
  "logged h (Logger format None) statusCode = True"
| "logged h (Logger format (Some loggerOptions)) statusCode =
     (case skip h loggerOptions statusCode of Inr b \<Rightarrow> \<not> b | Inl e \<Rightarrow> False)"
| "logged h m statusCode = False"

section \<open>errorHandler\<close>

record response =
  status :: jsval
  json :: "(string \<times> jsval) list"

definition errorHandler :: "heap \<Rightarrow> jsval \<Rightarrow> error + response" where
  "errorHandler h err =
     (case Get h err ''status'' of
        Inl e \<Rightarrow> Inl e
      | Inr s \<Rightarrow>
          Inr \<lparr>status = js_or s (Num (Number_of_int 500)),
               json = [(''message'', lookup h err ''message''),
                       (''errors'', lookup h err ''errors'')]\<rparr>)"

section \<open>The application handle and the world\<close>

text \<open>
  The world of the constructor: the heap of option objects, the next unused reference,
  and for every application handle its chain of middleware in registration order.
\<close>

record ('d, 'h) world =
  heap :: heap
  next_ref :: ref
  apps :: "ref \<Rightarrow> ('d, 'h) middleware list"

text \<open>
  What the constructor calls and does not define: the file system, the YAML parser,
  and the calls that create the middleware of the libraries and of the sibling classes
  \<open>SwaggerUI\<close>, \<open>SwaggerParameters\<close> and \<open>SwaggerRouter\<close>. Each of them may throw;
  \<open>throws\<close> says which creating calls do, and with what.
\<close>

record ('d, 'h) env =
  readFileSync :: "string \<Rightarrow> error + string"
  jsyaml_load :: "string \<Rightarrow> error + 'd"
  throws :: "('d, 'h) middleware \<Rightarrow> error option"

text \<open>\<open>express()\<close>: a new application, with an empty chain.\<close>

definition express :: "('d, 'h) world \<Rightarrow> jsval \<times> ('d, 'h) world" where
  "express w =
     (Ref (next_ref w),
      w\<lparr>next_ref := Suc (next_ref w), apps := (apps w)(next_ref w := [])\<rparr>)"

text \<open>
  \<open>app.use(m)\<close> appends to the chain. When \<open>app\<close> is not an object the call throws
  a TypeError (there is no \<open>use\<close> to call); an object in that place is an application,
  as the type \<open>express.Application\<close> of the field says.
\<close>

definition use :: "jsval \<Rightarrow> ('d, 'h) middleware \<Rightarrow> ('d, 'h) world
    \<Rightarrow> (error + unit) \<times> ('d, 'h) world" where
  "use a m w =
     (case a of
        Ref r \<Rightarrow> (Inr (), w\<lparr>apps := (apps w)(r := apps w r @ [m])\<rparr>)
      | _ \<Rightarrow> (Inl TypeError, w))"

text \<open>
  The handlers of the caller and the method \<open>errorHandler\<close> are passed as they are;
  every other middleware is the result of a call, which may throw. A creating call is
  modelled by what the constructor sees of it: it returns or it throws. What such a
  call does to an object it is given is left out: \<open>OpenApiValidator.middleware\<close>
  completes its options object with defaults of its own, leaving \<open>apiSpec\<close> as it is.
  Of the heap after these calls the statements below therefore use only the fields
  that this class itself reads or writes.
\<close>

fun is_call :: "('d, 'h) middleware \<Rightarrow> bool" where
  "is_call (Custom f) = False"
| "is_call ErrorHandler = False"
| "is_call m = True"

definition create :: "('d, 'h) env \<Rightarrow> ('d, 'h) middleware \<Rightarrow> error + ('d, 'h) middleware" where
  "create env m =
     (if is_call m then (case throws env m of Some e \<Rightarrow> Inl e | None \<Rightarrow> Inr m)
      else Inr m)"

text \<open>
  A run of statements \<open>this.app.use(...)\<close>: each creates its middleware, then
  appends it; the first exception ends the run and leaves the chain as it is by then.
\<close>

fun register :: "('d, 'h) env \<Rightarrow> jsval \<Rightarrow> ('d, 'h) middleware list \<Rightarrow> ('d, 'h) world
    \<Rightarrow> (error + unit) \<times> ('d, 'h) world" where
  "register env a [] w = (Inr (), w)"
| "register env a (m # ms) w =
     (case create env m of
        Inl e \<Rightarrow> (Inl e, w)
      | Inr m' \<Rightarrow>
          (case use a m' w of
             (Inl e, w') \<Rightarrow> (Inl e, w')
           | (Inr u, w') \<Rightarrow> register env a ms w'))"

section \<open>ExpressAppConfig\<close>

record ExpressAppConfig =
  app :: jsval
  routingOptions :: jsval
  parserLimit :: jsval
  definitionPath :: string
  openApiValidatorOptions :: jsval

text \<open>
  Lines 67 to 79. The object literal of line 70 is a new object; the assignment of
  line 78 writes into the object that the caller passed, and in strict mode (line 1)
  throws a TypeError when the value is a primitive.
\<close>

definition setOpenApiValidatorOptions ::
  "string \<Rightarrow> jsval \<Rightarrow> ExpressAppConfig \<times> ('d, 'h) world
     \<Rightarrow> (error + ExpressAppConfig) \<times> ('d, 'h) world" where
  "setOpenApiValidatorOptions path appOptions tw =
     (case tw of (this, w) \<Rightarrow>
        if \<not> truthy appOptions \<or> \<not> truthy (lookup (heap w) appOptions ''openApiValidator'')
        then
          (Inr (this\<lparr>openApiValidatorOptions := Ref (next_ref w)\<rparr>),
           w\<lparr>heap := (heap w)(next_ref w := [''apiSpec'' \<mapsto> Str path]),
             next_ref := Suc (next_ref w)\<rparr>)
        else
          (case lookup (heap w) appOptions ''openApiValidator'' of
             Ref r \<Rightarrow>
               (Inr (this\<lparr>openApiValidatorOptions := Ref r\<rparr>),
                w\<lparr>heap := (heap w)(r := (heap w r)(''apiSpec'' \<mapsto> Str path))\<rparr>)
           | _ \<Rightarrow> (Inl TypeError, w)))"

text \<open>Lines 45 to 64: the middleware registered after the document is loaded.\<close>

definition pipeline ::
  "heap \<Rightarrow> ExpressAppConfig \<Rightarrow> jsval \<Rightarrow> 'd \<Rightarrow> 'h list option \<Rightarrow> string
     \<Rightarrow> ('d, 'h) middleware list" where
  "pipeline h this appOptions swaggerDoc customMiddlewares jsonExpressType =
     [BodyParser_urlencoded (parserLimit this),
      BodyParser_text (parserLimit this),
      BodyParser_json (parserLimit this),
      BodyParser_raw ''application/pdf'' (parserLimit this),
      configureLogger h (lookup h appOptions ''logging''),
      Express_json jsonExpressType,
      Express_urlencoded False,
      CookieParser,
      SwaggerUI_serveStaticContent swaggerDoc (lookup h appOptions ''swaggerUI''),
      OpenApiValidator_middleware (openApiValidatorOptions this),
      SwaggerParameters_checkParameters]
     @ map Custom (case customMiddlewares of Some ms \<Rightarrow> ms | None \<Rightarrow> [])
     @ [SwaggerRouter_initialize (routingOptions this),
        ErrorHandler]"

text \<open>
  Lines 31 to 65. \<open>customMiddlewares\<close> is optional, \<open>jsonExpressType\<close> has the
  default \<open>application/json\<close>. The result is the new instance or the exception, and
  in both cases the world as the constructor left it.
\<close>

definition ExpressAppConfig_constructor ::
  "('d, 'h) env \<Rightarrow> string \<Rightarrow> jsval \<Rightarrow> 'h list option \<Rightarrow> string option
     \<Rightarrow> ('d, 'h) world \<Rightarrow> (error + ExpressAppConfig) \<times> ('d, 'h) world" where
  "ExpressAppConfig_constructor env path appOptions customMiddlewares jsonExpressType w =
     (case Get (heap w) appOptions ''routing'' of
        Inl e \<Rightarrow> (Inl e, w)
      | Inr routing \<Rightarrow>
     (case setOpenApiValidatorOptions path appOptions
             (\<lparr>app = Undefined,
               routingOptions = routing,
               parserLimit = js_or (lookup (heap w) appOptions ''parserLimit'') (Str ''100kb''),
               definitionPath = path,
               openApiValidatorOptions = Undefined\<rparr>, w) of
        (Inl e, w1) \<Rightarrow> (Inl e, w1)
      | (Inr this1, w1) \<Rightarrow>
     (case (if truthy (lookup (heap w1) appOptions ''app'')
            then (lookup (heap w1) appOptions ''app'', w1) else express w1) of
        (a, w2) \<Rightarrow>
     (case register env a [Cors (lookup (heap w2) appOptions ''cors'')] w2 of
        (Inl e, w3) \<Rightarrow> (Inl e, w3)
      | (Inr u, w3) \<Rightarrow>
     (case readFileSync env path of
        Inl e \<Rightarrow> (Inl e, w3)
      | Inr spec \<Rightarrow>
     (case jsyaml_load env spec of
        Inl e \<Rightarrow> (Inl e, w3)
      | Inr swaggerDoc \<Rightarrow>
     (case register env a
             (pipeline (heap w3) (this1\<lparr>app := a\<rparr>) appOptions swaggerDoc customMiddlewares
                (case jsonExpressType of Some t \<Rightarrow> t | None \<Rightarrow> ''application/json''))
             w3 of
        (Inl e, w4) \<Rightarrow> (Inl e, w4)
      | (Inr u, w4) \<Rightarrow> (Inr (this1\<lparr>app := a\<rparr>), w4))))))))"

definition getApp :: "ExpressAppConfig \<times> ('d, 'h) world
    \<Rightarrow> jsval \<times> ExpressAppConfig \<times> ('d, 'h) world" where
  "getApp tw = (case tw of (this, w) \<Rightarrow> (app this, this, w))"

section \<open>Auxiliary notions\<close>

text \<open>The decimal numeral of an integer, as a caller writes it in a string.\<close>

definition decimal_literal :: "int \<Rightarrow> string" where
  "decimal_literal i = (if i < 0 then ''-'' else '''') @ digits (nat \<bar>i\<bar>)"

text \<open>The characters \<open>0\<close> to \<open>9\<close>.\<close>

definition dec_digit :: "char \<Rightarrow> bool" where
  "dec_digit c = (c \<in> set ''0123456789'')"

text \<open>An object the caller passes exists already: its reference is below \<open>next_ref\<close>.\<close>

definition allocated :: "('d, 'h) world \<Rightarrow> jsval \<Rightarrow> bool" where
  "allocated w v = (case v of Ref r \<Rightarrow> r < next_ref w | _ \<Rightarrow> True)"

section \<open>Sample inputs\<close>

text \<open>
  A heap of option and failure objects as a caller may build them, a world with that
  heap, and an environment with one readable document, one unparsable file and no
  other file. Documents and handlers are named by strings.
\<close>

definition sample_heap :: heap where
  "sample_heap =
     (\<lambda>r. Map.empty)
     (0 := [''routing'' \<mapsto> Ref 1, ''logging'' \<mapsto> Ref 2,
            ''openApiValidator'' \<mapsto> Ref 3, ''app'' \<mapsto> Ref 4],
      1 := [''controllers'' \<mapsto> Str ''./controllers''],
      2 := [''format'' \<mapsto> Str ''combined'', ''errorLimit'' \<mapsto> Num (Number_of_int 400)],
      3 := [''validateRequests'' \<mapsto> Bool True],
      5 := [''errorLimit'' \<mapsto> Num (Fin False 4005 (- 1))],
      6 := [''errorLimit'' \<mapsto> Str ''errors''],
      7 := [''errorLimit'' \<mapsto> Bool True],
      8 := [''status'' \<mapsto> Num (Number_of_int 0), ''message'' \<mapsto> Str ''unreachable''],
      9 := [''status'' \<mapsto> Num (Number_of_int 404), ''message'' \<mapsto> Str ''not found'',
            ''errors'' \<mapsto> Ref 10],
      11 := [''errorLimit'' \<mapsto> Str ''500''],
      13 := [''errorLimit'' \<mapsto> Str ''9007199254740993''])"

definition sample_world :: "(string, string) world" where
  "sample_world = \<lparr>heap = sample_heap, next_ref = 20, apps = (\<lambda>r. [])\<rparr>"

definition sample_env :: "(string, string) env" where
  "sample_env =
     \<lparr>readFileSync =
        (\<lambda>p. if p = ''/api/openapi.yaml'' then Inr ''openapi: 3.0.0''
             else if p = ''/api/broken.yaml'' then Inr ''{''
             else Inl (SystemError ''ENOENT'')),
      jsyaml_load =
        (\<lambda>s. if s = ''{'' then Inl (YAMLException ''unexpected end of the stream'')
             else Inr s),
      throws = (\<lambda>m. None)\<rparr>"

definition sample_run :: "(error + ExpressAppConfig) \<times> (string, string) world" where
  "sample_run =
     ExpressAppConfig_constructor sample_env ''/api/openapi.yaml'' (Ref 0)
       (Some [''auth'', ''audit'']) None sample_world"

definition sample_failed_run :: "(error + ExpressAppConfig) \<times> (string, string) world" where
  "sample_failed_run =
     ExpressAppConfig_constructor sample_env ''/api/missing.yaml'' (Ref 0) None None sample_world"

definition sample_default_run :: "(error + ExpressAppConfig) \<times> (string, string) world" where
  "sample_default_run =
     ExpressAppConfig_constructor sample_env ''/api/openapi.yaml'' (Ref 12) None
       (Some ''application/vnd.api+json'') sample_world"

section \<open>Digits and \<open>parseInt\<close>\<close>

text \<open>
  The decimal numeral of a natural number is read back by \<open>parseInt\<close> as that number,
  and an integer Number below \<open>10\<^sup>2\<^sup>1\<close> in absolute value is printed as its decimal
  numeral.
\<close>

lemma bitlen_bounds: "0 < n \<Longrightarrow> 2 ^ (bitlen n - 1) \<le> n \<and> n < 2 ^ bitlen n"
proof (induction n rule: bitlen.induct)
  case (1 n)
  show ?case
  proof (cases "n div 2 = 0")
    case True
    with "1.prems" have "n = 1" by auto
    then show ?thesis
      by (simp add: bitlen.simps)
  next
    case False
    then have pos: "0 < n div 2" by simp
    from "1.IH" [OF _ pos] "1.prems"
    have ih: "2 ^ (bitlen (n div 2) - 1) \<le> n div 2" "n div 2 < 2 ^ bitlen (n div 2)"
      by simp_all
    have b: "bitlen n = Suc (bitlen (n div 2))"
      using "1.prems" by (subst bitlen.simps) simp
    have p: "0 < bitlen (n div 2)"
      using pos by (subst bitlen.simps) simp
    then obtain k where k: "bitlen (n div 2) = Suc k"
      by (cases "bitlen (n div 2)") simp_all
    from ih k have "2 * 2 ^ k \<le> n" "n < 2 * 2 ^ Suc k"
      by simp_all
    then show ?thesis
      by (simp add: b k)
  qed
qed

lemma roundTiesToEven_safe: "n < 2 ^ 53 \<Longrightarrow> roundTiesToEven n = n"
  by (simp add: roundTiesToEven_def)

lemma roundTiesToEven_large:
  assumes "2 ^ 53 \<le> n"
  shows "2 ^ 53 \<le> roundTiesToEven n"
proof -
  define e where "e = bitlen n - 53"
  define q where "q = n div 2 ^ e"
  from assms have pos: "0 < n"
    by (simp add: order_less_le_trans [of 0 "2 ^ 53" n])
  from bitlen_bounds [OF pos] have lo: "2 ^ (bitlen n - 1) \<le> n" and hi: "n < 2 ^ bitlen n"
    by simp_all
  from assms hi have "(2::nat) ^ 53 < 2 ^ bitlen n"
    by (rule le_less_trans)
  then have b: "53 < bitlen n"
    using power_less_imp_less_exp [of 2 53 "bitlen n"] by simp
  then have e: "bitlen n - 1 = 52 + e" "0 < e"
    by (simp_all add: e_def)
  from lo e have "2 ^ 52 * 2 ^ e \<le> n"
    by (simp add: power_add)
  then have q52: "2 ^ 52 \<le> q"
    unfolding q_def by (simp add: less_eq_div_iff_mult_less_eq)
  from e obtain j where j: "e = Suc j"
    by (cases e) simp_all
  have "(2::nat) ^ 53 = 2 ^ 52 * 2"
    by simp
  also have "\<dots> \<le> q * 2 ^ e"
    using q52 j by (intro mult_le_mono) simp_all
  finally have base: "2 ^ 53 \<le> q * 2 ^ e" .
  have "q * 2 ^ e \<le> roundTiesToEven n"
    using assms by (simp add: roundTiesToEven_def Let_def e_def [symmetric] q_def [symmetric])
  with base show ?thesis
    by (rule le_trans)
qed

text \<open>
  A status code below \<open>2\<^sup>5\<^sup>3\<close> in absolute value compares with the rounded integer as
  it does with the integer itself.
\<close>

lemma less_roundTiesToEven:
  assumes "\<bar>s\<bar> \<le> MAX_SAFE_INTEGER"
  shows "(s < int (roundTiesToEven n)) = (s < int n)"
    and "(s < - int (roundTiesToEven n)) = (s < - int n)"
proof -
  from assms have s: "s < 2 ^ 53" "- (2 ^ 53) < s"
    by (simp_all add: MAX_SAFE_INTEGER_def)
  show "(s < int (roundTiesToEven n)) = (s < int n)"
  proof (cases "n < 2 ^ 53")
    case True
    then show ?thesis by (simp add: roundTiesToEven_safe)
  next
    case False
    then have n: "2 ^ 53 \<le> n" by simp
    then have "2 ^ 53 \<le> roundTiesToEven n" by (rule roundTiesToEven_large)
    then have "(2::int) ^ 53 \<le> int (roundTiesToEven n)"
      by (metis of_nat_le_iff of_nat_numeral of_nat_power)
    moreover from n have "(2::int) ^ 53 \<le> int n"
      by (metis of_nat_le_iff of_nat_numeral of_nat_power)
    ultimately show ?thesis using s by linarith
  qed
  show "(s < - int (roundTiesToEven n)) = (s < - int n)"
  proof (cases "n < 2 ^ 53")
    case True
    then show ?thesis by (simp add: roundTiesToEven_safe)
  next
    case False
    then have n: "2 ^ 53 \<le> n" by simp
    then have "2 ^ 53 \<le> roundTiesToEven n" by (rule roundTiesToEven_large)
    then have "(2::int) ^ 53 \<le> int (roundTiesToEven n)"
      by (metis of_nat_le_iff of_nat_numeral of_nat_power)
    moreover from n have "(2::int) ^ 53 \<le> int n"
      by (metis of_nat_le_iff of_nat_numeral of_nat_power)
    ultimately show ?thesis using s by linarith
  qed
qed

lemma dec_digit_nth: "d < 10 \<Longrightarrow> dec_digit (''0123456789'' ! d)"
  unfolding dec_digit_def by (rule nth_mem) simp

lemma digit_value_nth: "d < 10 \<Longrightarrow> digit_value (''0123456789'' ! d) = Some d"
proof -
  have "\<forall>d \<in> {..<10}. digit_value (''0123456789'' ! d) = Some d"
    by (simp add: lessThan_nat_numeral lessThan_Suc digit_value_def)
  then show "d < 10 \<Longrightarrow> ?thesis"
    by simp
qed

lemma dec_digit_all:
  "\<forall>c \<in> set ''0123456789''.
     \<not> StrWhiteSpaceChar c \<and> c \<noteq> CHR ''-'' \<and> c \<noteq> CHR ''+'' \<and> c \<noteq> CHR ''x''
     \<and> c \<noteq> CHR ''X'' \<and> radix_digit 10 c"
  by (simp add: StrWhiteSpaceChar_def radix_digit_def digit_value_def)

lemma dec_digit_facts:
  assumes "dec_digit c"
  shows "\<not> StrWhiteSpaceChar c" "c \<noteq> CHR ''-''" "c \<noteq> CHR ''+''" "c \<noteq> CHR ''x''" "c \<noteq> CHR ''X''"
    "radix_digit 10 c"
  using assms dec_digit_all unfolding dec_digit_def by blast+

lemma digits_nonempty: "digits n \<noteq> []"
  by (subst digits.simps) simp

lemma digits_dec: "c \<in> set (digits n) \<Longrightarrow> dec_digit c"
proof (induction n rule: digits.induct)
  case (1 n)
  show ?case
  proof (cases "n < 10")
    case True
    with "1.prems" show ?thesis
      by (subst (asm) digits.simps) (simp add: dec_digit_nth)
  next
    case False
    with "1.prems" have "c \<in> set (digits (n div 10)) \<or> c = ''0123456789'' ! (n mod 10)"
      by (subst (asm) digits.simps) auto
    then show ?thesis
      using "1.IH" [OF False] by (auto simp: dec_digit_nth)
  qed
qed

lemma digits_value_snoc:
  "digits_value R (Z @ [c]) =
     digits_value R Z * R + (case digit_value c of Some v \<Rightarrow> v | None \<Rightarrow> 0)"
  by (simp add: digits_value_def)

lemma digits_value_digits: "digits_value 10 (digits n) = n"
proof (induction n rule: digits.induct)
  case (1 n)
  show ?case
  proof (cases "n < 10")
    case True
    then show ?thesis
      by (subst digits.simps) (simp add: digits_value_def digit_value_nth)
  next
    case False
    have "digits_value 10 (digits n) = digits_value 10 (digits (n div 10)) * 10 + n mod 10"
      using False by (subst digits.simps) (simp add: digits_value_snoc digit_value_nth)
    with "1.IH" [OF False] show ?thesis by simp
  qed
qed

lemma length_digits: "n < 10 ^ k \<Longrightarrow> 0 < k \<Longrightarrow> length (digits n) \<le> k"
proof (induction n arbitrary: k rule: digits.induct)
  case (1 n)
  show ?case
  proof (cases "n < 10")
    case True
    with "1.prems" show ?thesis
      by (subst digits.simps) simp
  next
    case False
    from False "1.prems" obtain j where k: "k = Suc j"
      by (cases k) simp_all
    from False "1.prems" k have "0 < j"
      by (cases j) simp_all
    moreover from "1.prems" k have "n div 10 < 10 ^ j"
      by (simp add: less_mult_imp_div_less mult.commute)
    ultimately have "length (digits (n div 10)) \<le> j"
      by (rule "1.IH" [OF False, rotated])
    then show ?thesis
      using False k by (subst digits.simps) simp
  qed
qed

lemma strip_zeros_replicate:
  "strip_zeros ds @ replicate (length ds - length (strip_zeros ds)) (CHR ''0'') = ds"
proof -
  let ?P = "\<lambda>c. c = CHR ''0''"
  have t: "takeWhile ?P (rev ds) = replicate (length (takeWhile ?P (rev ds))) (CHR ''0'')"
    by (rule replicate_length_same [symmetric]) (auto dest: set_takeWhileD)
  have l: "length ds = length (takeWhile ?P (rev ds)) + length (dropWhile ?P (rev ds))"
    by (metis length_append length_rev takeWhile_dropWhile_id)
  have "ds = rev (takeWhile ?P (rev ds) @ dropWhile ?P (rev ds))"
    by simp
  also have "\<dots> = strip_zeros ds @ rev (takeWhile ?P (rev ds))"
    by (simp only: rev_append strip_zeros_def)
  also have "rev (takeWhile ?P (rev ds)) = replicate (length (takeWhile ?P (rev ds))) (CHR ''0'')"
    by (subst t) simp
  finally show ?thesis
    using l by (simp add: strip_zeros_def)
qed

lemma length_strip_zeros: "length (strip_zeros ds) \<le> length ds"
  by (simp add: strip_zeros_def) (metis length_dropWhile_le length_rev)

lemma render_integer: "length ds \<le> 21 \<Longrightarrow> render ds 0 = ds"
  using strip_zeros_replicate [of ds] length_strip_zeros [of ds]
  by (simp add: render_def Let_def nat_diff_distrib' of_nat_diff)

lemma parseInt_dec:
  assumes "ds \<noteq> []" and "\<And>c. c \<in> set ds \<Longrightarrow> dec_digit c"
  shows "parseInt ds = Some (int (roundTiesToEven (digits_value 10 ds)))"
    and "parseInt (''-'' @ ds) = Some (- int (roundTiesToEven (digits_value 10 ds)))"
proof -
  from assms(1) obtain c cs where ds: "ds = c # cs"
    by (cases ds) simp_all
  have c: "dec_digit c"
    using assms(2) ds by simp
  have ws: "dropWhile StrWhiteSpaceChar ds = ds"
    using dec_digit_facts(1) [OF c] ds by simp
  have sign: "take 1 ds \<noteq> ''-''" "take 1 ds \<noteq> ''+''"
    using dec_digit_facts(2,3) [OF c] ds by simp_all
  have nohex: "take 2 ds \<noteq> ''0x''" "take 2 ds \<noteq> ''0X''"
    using assms(2) ds by (cases cs; auto dest: dec_digit_facts)+
  have all: "takeWhile (radix_digit 10) ds = ds"
    using assms(2) by (simp add: takeWhile_eq_all_conv dec_digit_facts)
  show "parseInt ds = Some (int (roundTiesToEven (digits_value 10 ds)))"
    unfolding parseInt_def ws using assms(1) sign nohex by (simp add: Let_def all)
  have ws': "dropWhile StrWhiteSpaceChar (''-'' @ ds) = ''-'' @ ds"
    by (simp add: StrWhiteSpaceChar_def)
  show "parseInt (''-'' @ ds) = Some (- int (roundTiesToEven (digits_value 10 ds)))"
    unfolding parseInt_def ws' using assms(1) nohex by (simp add: Let_def all)
qed

lemma parseInt_decimal_literal:
  "parseInt (decimal_literal i) =
     Some (if i < 0 then - int (roundTiesToEven (nat \<bar>i\<bar>)) else int (roundTiesToEven (nat \<bar>i\<bar>)))"
proof -
  let ?ds = "digits (nat \<bar>i\<bar>)"
  have ne: "?ds \<noteq> []"
    by (rule digits_nonempty)
  have dd: "\<And>c. c \<in> set ?ds \<Longrightarrow> dec_digit c"
    by (rule digits_dec)
  show ?thesis
  proof (cases "i < 0")
    case True
    with parseInt_dec(2) [OF ne dd] show ?thesis
      by (simp add: decimal_literal_def digits_value_digits)
  next
    case False
    with parseInt_dec(1) [OF ne dd] show ?thesis
      by (simp add: decimal_literal_def digits_value_digits)
  qed
qed

lemma parseInt_decimal_literal_safe:
  assumes "\<bar>i\<bar> \<le> MAX_SAFE_INTEGER"
  shows "parseInt (decimal_literal i) = Some i"
proof -
  from assms have "nat \<bar>i\<bar> < 2 ^ 53"
    by (simp add: MAX_SAFE_INTEGER_def nat_less_iff)
  then have "roundTiesToEven (nat \<bar>i\<bar>) = nat \<bar>i\<bar>"
    by (rule roundTiesToEven_safe)
  then show ?thesis
    by (cases "i < 0") (simp_all add: parseInt_decimal_literal)
qed

lemma less_parseInt_decimal_literal:
  assumes "\<bar>s\<bar> \<le> MAX_SAFE_INTEGER"
  shows "\<exists>limit. parseInt (decimal_literal T) = Some limit \<and> (s < limit) = (s < T)"
  using less_roundTiesToEven [OF assms, of "nat \<bar>T\<bar>"]
  by (cases "T < 0") (simp_all add: parseInt_decimal_literal)

lemma Number_toString_int:
  "\<bar>i\<bar> < 10 ^ 21 \<Longrightarrow> Number_toString (Number_of_int i) = decimal_literal i"
proof -
  assume b: "\<bar>i\<bar> < 10 ^ 21"
  then have "nat \<bar>i\<bar> < 10 ^ 21"
    by (simp add: nat_less_iff)
  then have "length (digits (nat \<bar>i\<bar>)) \<le> 21"
    by (rule length_digits) simp
  then have r: "render (digits (nat \<bar>i\<bar>)) 0 = digits (nat \<bar>i\<bar>)"
    by (rule render_integer)
  have z: "digits 0 = ''0''"
    by (subst digits.simps) simp
  show ?thesis
    using r z by (auto simp: Number_of_int_def decimal_literal_def)
qed

lemma parseInt_Number_of_int:
  assumes "\<bar>i\<bar> \<le> MAX_SAFE_INTEGER"
  shows "parseInt (ToString (Num (Number_of_int i))) = Some i"
proof -
  from assms have "\<bar>i\<bar> < 10 ^ 21"
    by (simp add: MAX_SAFE_INTEGER_def)
  then show ?thesis
    by (simp add: Number_toString_int parseInt_decimal_literal_safe [OF assms])
qed

lemma decimal_literal_500: "decimal_literal 500 = ''500''"
  by (simp add: decimal_literal_def digits.simps)

section \<open>Registration and construction\<close>

text \<open>
  A run of registrations never touches the heap; when it succeeds, the handle is an
  object and has received the whole run, in order. A successful construction has
  therefore passed through every step of the constructor, and its world is the one
  these steps leave.
\<close>

lemma register_heap:
  "register env a ms w = (res, w') \<Longrightarrow> heap w' = heap w \<and> next_ref w' = next_ref w"
proof (induction ms arbitrary: w)
  case Nil
  then show ?case by simp
next
  case (Cons m ms)
  show ?case
  proof (cases "create env m")
    case (Inl e)
    with Cons.prems show ?thesis by simp
  next
    case (Inr m')
    show ?thesis
    proof (cases a)
      case (Ref r)
      with Inr Cons.prems
      have "register env a ms (w\<lparr>apps := (apps w)(r := apps w r @ [m'])\<rparr>) = (res, w')"
        by (simp add: use_def)
      from Cons.IH [OF this] show ?thesis by simp
    qed (use Inr Cons.prems in \<open>simp_all add: use_def\<close>)
  qed
qed

lemma create_Inr: "create env m = Inr m' \<Longrightarrow> m' = m"
  by (auto simp: create_def split: if_splits option.splits)

lemma register_Ref_Inr:
  "register env (Ref r) ms w = (Inr u, w') \<Longrightarrow> apps w' = (apps w)(r := apps w r @ ms)"
proof (induction ms arbitrary: w)
  case Nil
  then show ?case by simp
next
  case (Cons m ms)
  from Cons.prems obtain m' where c: "create env m = Inr m'"
    by (cases "create env m") simp_all
  then have m': "m' = m" by (rule create_Inr)
  from Cons.prems c m'
  have "register env (Ref r) ms (w\<lparr>apps := (apps w)(r := apps w r @ [m])\<rparr>) = (Inr u, w')"
    by (simp add: use_def)
  from Cons.IH [OF this] show ?case by (simp add: fun_eq_iff)
qed

lemma register_Inr_Ref:
  "register env a (m # ms) w = (Inr u, w') \<Longrightarrow> \<exists>r. a = Ref r"
  by (cases a; cases "create env m") (simp_all add: use_def)

lemma setOpenApiValidatorOptions_apps:
  "setOpenApiValidatorOptions path ao (this, w) = (res, w') \<Longrightarrow> apps w' = apps w"
  by (auto simp: setOpenApiValidatorOptions_def split: if_splits jsval.splits)

lemma setOpenApiValidatorOptions_this:
  "setOpenApiValidatorOptions path ao (this, w) = (Inr this', w') \<Longrightarrow>
     \<exists>r. this' = this\<lparr>openApiValidatorOptions := Ref r\<rparr>"
  by (auto simp: setOpenApiValidatorOptions_def split: if_splits jsval.splits)

lemma constructor_Inr:
  assumes "ExpressAppConfig_constructor env path ao cm jt w = (Inr this, w')"
  shows "\<exists>this1 w1 w2 r spec doc.
      ne_undefined ao \<and>
      setOpenApiValidatorOptions path ao
        (\<lparr>app = Undefined, routingOptions = lookup (heap w) ao ''routing'',
          parserLimit = js_or (lookup (heap w) ao ''parserLimit'') (Str ''100kb''),
          definitionPath = path, openApiValidatorOptions = Undefined\<rparr>, w) = (Inr this1, w1) \<and>
      (if truthy (lookup (heap w1) ao ''app'')
       then (lookup (heap w1) ao ''app'', w1) else express w1) = (Ref r, w2) \<and>
      this = this1\<lparr>app := Ref r\<rparr> \<and>
      readFileSync env path = Inr spec \<and> jsyaml_load env spec = Inr doc \<and>
      heap w' = heap w1 \<and>
      apps w' = (apps w2)(r := apps w2 r @
         Cors (lookup (heap w1) ao ''cors'') #
         pipeline (heap w1) this ao doc cm
           (case jt of Some t \<Rightarrow> t | None \<Rightarrow> ''application/json''))"
proof -
  let ?init = "\<lparr>app = Undefined, routingOptions = lookup (heap w) ao ''routing'',
          parserLimit = js_or (lookup (heap w) ao ''parserLimit'') (Str ''100kb''),
          definitionPath = path, openApiValidatorOptions = Undefined\<rparr>"
  let ?jt = "case jt of Some t \<Rightarrow> t | None \<Rightarrow> ''application/json''"
  note A = assms [unfolded ExpressAppConfig_constructor_def]
  have ne: "ne_undefined ao"
    using A by (cases "ne_undefined ao") (simp_all add: Get_def)
  then have G: "Get (heap w) ao ''routing'' = Inr (lookup (heap w) ao ''routing'')"
    by (simp add: Get_def)
  obtain res1 w1 where s: "setOpenApiValidatorOptions path ao (?init, w) = (res1, w1)"
    by (cases "setOpenApiValidatorOptions path ao (?init, w)")
  from A G s obtain this1 where res1: "res1 = Inr this1"
    by (cases res1) simp_all
  obtain a w2 where e: "(if truthy (lookup (heap w1) ao ''app'')
       then (lookup (heap w1) ao ''app'', w1) else express w1) = (a, w2)"
    by (cases "if truthy (lookup (heap w1) ao ''app'')
       then (lookup (heap w1) ao ''app'', w1) else express w1")
  have h2: "heap w2 = heap w1"
    using e by (auto simp: express_def split: if_splits)
  obtain res3 w3 where c: "register env a [Cors (lookup (heap w2) ao ''cors'')] w2 = (res3, w3)"
    by (cases "register env a [Cors (lookup (heap w2) ao ''cors'')] w2")
  from A G s res1 e c obtain u where res3: "res3 = Inr u"
    by (cases res3) simp_all
  from register_Inr_Ref [OF c [unfolded res3]] obtain r where a: "a = Ref r" ..
  from register_heap [OF c] have h3: "heap w3 = heap w2" ..
  from register_Ref_Inr [OF c [unfolded res3 a]]
  have a3: "apps w3 = (apps w2)(r := apps w2 r @ [Cors (lookup (heap w2) ao ''cors'')])" .
  from A G s res1 e c res3 obtain spec where f: "readFileSync env path = Inr spec"
    by (cases "readFileSync env path") simp_all
  from A G s res1 e c res3 f obtain doc where y: "jsyaml_load env spec = Inr doc"
    by (cases "jsyaml_load env spec") simp_all
  obtain res4 w4 where p:
    "register env a (pipeline (heap w3) (this1\<lparr>app := a\<rparr>) ao doc cm ?jt) w3 = (res4, w4)"
    by (cases "register env a (pipeline (heap w3) (this1\<lparr>app := a\<rparr>) ao doc cm ?jt) w3")
  from A G s res1 e c res3 f y p obtain u' where res4: "res4 = Inr u'"
    by (cases res4) simp_all
  from A G s res1 e c res3 f y p res4 have fin: "this = this1\<lparr>app := a\<rparr>" "w' = w4"
    by simp_all
  from register_heap [OF p] have h4: "heap w4 = heap w3" ..
  from register_Ref_Inr [OF p [unfolded res4 a]]
  have a4: "apps w4 = (apps w3)(r := apps w3 r @ pipeline (heap w3) (this1\<lparr>app := Ref r\<rparr>) ao doc cm ?jt)" .
  have "apps w' = (apps w2)(r := apps w2 r @
         Cors (lookup (heap w1) ao ''cors'') # pipeline (heap w1) this ao doc cm ?jt)"
    using a3 a4 fin a h2 h3 by (simp add: fun_eq_iff)
  moreover have "heap w' = heap w1"
    using fin h4 h3 h2 by simp
  ultimately show ?thesis
    using ne s res1 e a fin f y by blast
qed

lemma register_no_throws:
  "(\<And>m. throws env m = None) \<Longrightarrow>
   register env (Ref r) ms w = (Inr (), w\<lparr>apps := (apps w)(r := apps w r @ ms)\<rparr>)"
proof (induction ms arbitrary: w)
  case Nil
  show ?case by simp
next
  case (Cons m ms)
  have "create env m = Inr m"
    by (simp add: create_def Cons.prems)
  then show ?case
    by (cases w) (simp add: use_def Cons.IH [OF Cons.prems] fun_eq_iff)
qed

lemma lookup_apiSpec_upd:
  "p \<noteq> ''apiSpec'' \<Longrightarrow> lookup (h(r := (h r)(''apiSpec'' \<mapsto> v))) x p = lookup h x p"
  by (cases x) simp_all


lemma setOpenApiValidatorOptions_Inr:
  assumes "\<not> truthy (lookup (heap w) ao ''openApiValidator'')
           \<or> (\<exists>r. lookup (heap w) ao ''openApiValidator'' = Ref r)"
    and "allocated w ao"
  shows "\<exists>this1 w1. setOpenApiValidatorOptions path ao (this, w) = (Inr this1, w1)
           \<and> apps w1 = apps w
           \<and> (\<forall>p. p \<noteq> ''apiSpec'' \<longrightarrow> lookup (heap w1) ao p = lookup (heap w) ao p)"
  using assms
  by (cases ao) (auto simp: setOpenApiValidatorOptions_def allocated_def)


lemma setOpenApiValidatorOptions_result:
  assumes "setOpenApiValidatorOptions path ao (this, w) = (Inr this1, w1)"
  shows "(\<not> truthy (lookup (heap w) ao ''openApiValidator'') \<longrightarrow>
            openApiValidatorOptions this1 = Ref (next_ref w)
            \<and> heap w1 (next_ref w) = [''apiSpec'' \<mapsto> Str path])
       \<and> (\<forall>r. lookup (heap w) ao ''openApiValidator'' = Ref r \<longrightarrow>
            openApiValidatorOptions this1 = Ref r
            \<and> heap w1 r = (heap w r)(''apiSpec'' \<mapsto> Str path))"
  using assms
  by (cases ao) (auto simp: setOpenApiValidatorOptions_def split: if_splits)

lemma setOpenApiValidatorOptions_any_instance:
  assumes "setOpenApiValidatorOptions path ao (this, w) = (Inr this1, w1)"
  shows "\<exists>v. this1 = this\<lparr>openApiValidatorOptions := v\<rparr>
           \<and> (\<forall>t. setOpenApiValidatorOptions path ao (t, w)
                    = (Inr (t\<lparr>openApiValidatorOptions := v\<rparr>), w1))"
  using assms
  by (cases ao) (auto simp: setOpenApiValidatorOptions_def split: if_splits jsval.splits)

lemma constructor_Inr_last:
  assumes "ExpressAppConfig_constructor env path ao cm jt w = (Inr this, w')"
  shows "\<exists>r. app this = Ref r \<and> apps w' r \<noteq> [] \<and> last (apps w' r) = ErrorHandler"
proof -
  from constructor_Inr [OF assms] obtain this1 w1 w2 r spec doc where
    s: "setOpenApiValidatorOptions path ao
        (\<lparr>app = Undefined, routingOptions = lookup (heap w) ao ''routing'',
          parserLimit = js_or (lookup (heap w) ao ''parserLimit'') (Str ''100kb''),
          definitionPath = path, openApiValidatorOptions = Undefined\<rparr>, w) = (Inr this1, w1)"
    and e: "(if truthy (lookup (heap w1) ao ''app'')
       then (lookup (heap w1) ao ''app'', w1) else express w1) = (Ref r, w2)"
    and t: "this = this1\<lparr>app := Ref r\<rparr>"
    and f: "readFileSync env path = Inr spec" "jsyaml_load env spec = Inr doc"
    and h: "heap w' = heap w1"
    and a: "apps w' = (apps w2)(r := apps w2 r @
         Cors (lookup (heap w1) ao ''cors'') #
         pipeline (heap w1) this ao doc cm
           (case jt of Some t \<Rightarrow> t | None \<Rightarrow> ''application/json''))"
    by blast
  from a have "apps w' r \<noteq> []" "last (apps w' r) = ErrorHandler"
    by (simp_all add: pipeline_def)
  with t show ?thesis
    by simp
qed

section \<open>The sample inputs, evaluated\<close>

text \<open>
  The values of the constructor, of the property reads and of \<open>parseInt\<close> on the
  sample inputs, computed once and used where a statement is shown on these inputs.
\<close>

lemma sample_env_throws: "throws sample_env m = None"
  by (simp add: sample_env_def)

lemma sample_setOpenApiValidatorOptions:
  "setOpenApiValidatorOptions path (Ref 0) (this, sample_world) =
     (Inr (this\<lparr>openApiValidatorOptions := Ref 3\<rparr>),
      sample_world\<lparr>heap := sample_heap(3 := (sample_heap 3)(''apiSpec'' \<mapsto> Str path))\<rparr>)"
  by (simp add: setOpenApiValidatorOptions_def sample_world_def sample_heap_def)

lemma sample_files:
  "readFileSync sample_env ''/api/openapi.yaml'' = Inr ''openapi: 3.0.0''"
  "readFileSync sample_env ''/api/missing.yaml'' = Inl (SystemError ''ENOENT'')"
  "readFileSync sample_env ''/api/broken.yaml'' = Inr ''{''"
  "jsyaml_load sample_env ''openapi: 3.0.0'' = Inr ''openapi: 3.0.0''"
  "jsyaml_load sample_env ''{'' = Inl (YAMLException ''unexpected end of the stream'')"
  by (simp_all add: sample_env_def)

lemma sample_lookup_options:
  "lookup sample_heap (Ref 0) ''routing'' = Ref 1"
  "lookup sample_heap (Ref 0) ''parserLimit'' = Undefined"
  "lookup sample_heap (Ref 0) ''app'' = Ref 4"
  "lookup sample_heap (Ref 0) ''cors'' = Undefined"
  "lookup sample_heap (Ref 0) ''logging'' = Ref 2"
  "lookup sample_heap (Ref 0) ''swaggerUI'' = Undefined"
  by (simp_all add: sample_heap_def)

lemma sample_world_sel:
  "heap sample_world = sample_heap" "next_ref sample_world = 20" "apps sample_world = (\<lambda>r. [])"
  by (simp_all add: sample_world_def)

lemma sample_run_value:
  "sample_run =
     (Inr \<lparr>app = Ref 4, routingOptions = Ref 1, parserLimit = Str ''100kb'',
           definitionPath = ''/api/openapi.yaml'', openApiValidatorOptions = Ref 3\<rparr>,
      sample_world
        \<lparr>heap := sample_heap(3 := (sample_heap 3)(''apiSpec'' \<mapsto> Str ''/api/openapi.yaml'')),
         apps := (\<lambda>r. [])
           (4 := Cors Undefined #
              pipeline
                (sample_heap(3 := (sample_heap 3)(''apiSpec'' \<mapsto> Str ''/api/openapi.yaml'')))
                \<lparr>app = Ref 4, routingOptions = Ref 1, parserLimit = Str ''100kb'',
                  definitionPath = ''/api/openapi.yaml'', openApiValidatorOptions = Ref 3\<rparr>
                (Ref 0) ''openapi: 3.0.0'' (Some [''auth'', ''audit'']) ''application/json'')\<rparr>)"
  by (simp add: sample_run_def ExpressAppConfig_constructor_def Get_def
      sample_setOpenApiValidatorOptions sample_files sample_lookup_options lookup_apiSpec_upd
      js_or_def sample_world_sel register_no_throws [OF sample_env_throws]
      del: lookup.simps register.simps)

lemma sample_lookup_errorLimit:
  "lookup sample_heap (Ref 2) ''errorLimit'' = Num (Number_of_int 400)"
  "lookup sample_heap (Ref 5) ''errorLimit'' = Num (Fin False 4005 (- 1))"
  "lookup sample_heap (Ref 6) ''errorLimit'' = Str ''errors''"
  "lookup sample_heap (Ref 7) ''errorLimit'' = Bool True"
  "lookup sample_heap (Ref 11) ''errorLimit'' = Str ''500''"
  by (simp_all add: sample_heap_def)

lemma sample_lookup_format:
  "lookup sample_heap (Ref 2) ''format'' = Str ''combined''"
  "lookup sample_heap (Ref 5) ''format'' = Undefined"
  "lookup sample_heap (Ref 6) ''format'' = Undefined"
  "lookup sample_heap (Ref 7) ''format'' = Undefined"
  "lookup sample_heap (Ref 11) ''format'' = Undefined"
  by (simp_all add: sample_heap_def)

lemma parseInt_rounds: "parseInt ''9007199254740993'' = Some 9007199254740992"
  by (simp add: parseInt_def StrWhiteSpaceChar_def radix_digit_def digit_value_def
      digits_value_def roundTiesToEven_def bitlen.simps Let_def)

text \<open>
  Beyond the safe range the comparison is with the double: the threshold
  \<open>9007199254740993\<close> does not skip the status code \<open>9007199254740992\<close>.
\<close>

lemma skip_rounds: "skip sample_heap (Ref 13) 9007199254740992 = Inr False"
  by (simp add: skip_def Get_def sample_heap_def parseInt_rounds)

lemma parseInt_samples:
  "parseInt ''400.5'' = Some 400"
  "parseInt ''errors'' = None"
  "parseInt ''500'' = Some 500"
  by (simp_all add: parseInt_def StrWhiteSpaceChar_def radix_digit_def digit_value_def
      digits_value_def roundTiesToEven_def)

lemma ToString_400_5: "ToString (Num (Fin False 4005 (- 1))) = ''400.5''"
  by (simp add: render_def strip_zeros_def digits.simps)

lemma sample_lookup_failure:
  "lookup sample_heap (Ref 8) ''status'' = Num (Number_of_int 0)"
  "lookup sample_heap (Ref 8) ''message'' = Str ''unreachable''"
  "lookup sample_heap (Ref 8) ''errors'' = Undefined"
  "lookup sample_heap (Ref 9) ''status'' = Num (Number_of_int 404)"
  "lookup sample_heap (Ref 9) ''message'' = Str ''not found''"
  "lookup sample_heap (Ref 9) ''errors'' = Ref 10"
  by (simp_all add: sample_heap_def)

lemma sample_run_fst:
  "fst sample_run =
     Inr \<lparr>app = Ref 4, routingOptions = Ref 1, parserLimit = Str ''100kb'',
           definitionPath = ''/api/openapi.yaml'', openApiValidatorOptions = Ref 3\<rparr>"
  by (simp add: sample_run_value)

lemma sample_run_apps:
  "apps (snd sample_run) 4 =
     [Cors Undefined,
      BodyParser_urlencoded (Str ''100kb''),
      BodyParser_text (Str ''100kb''),
      BodyParser_json (Str ''100kb''),
      BodyParser_raw ''application/pdf'' (Str ''100kb''),
      Logger (Str ''combined'') (Some (Ref 2)),
      Express_json ''application/json'',
      Express_urlencoded False,
      CookieParser,
      SwaggerUI_serveStaticContent ''openapi: 3.0.0'' Undefined,
      OpenApiValidator_middleware (Ref 3),
      SwaggerParameters_checkParameters,
      Custom ''auth'',
      Custom ''audit'',
      SwaggerRouter_initialize (Ref 1),
      ErrorHandler]"
  by (simp add: sample_run_value pipeline_def configureLogger_def sample_lookup_options
      lookup_apiSpec_upd sample_lookup_errorLimit sample_lookup_format del: lookup.simps(1))

lemma sample_run_eq:
  "ExpressAppConfig_constructor sample_env ''/api/openapi.yaml'' (Ref 0)
       (Some [''auth'', ''audit'']) None sample_world
   = (Inr \<lparr>app = Ref 4, routingOptions = Ref 1, parserLimit = Str ''100kb'',
           definitionPath = ''/api/openapi.yaml'', openApiValidatorOptions = Ref 3\<rparr>,
      snd sample_run)"
  using sample_run_fst by (simp add: sample_run_def prod_eq_iff)

lemma sample_failed_run_value:
  "sample_failed_run =
     (Inl (SystemError ''ENOENT''),
      sample_world\<lparr>heap := sample_heap(3 := (sample_heap 3)(''apiSpec'' \<mapsto> Str ''/api/missing.yaml'')),
         apps := (\<lambda>r. [])(4 := [Cors Undefined])\<rparr>)"
  by (simp add: sample_failed_run_def ExpressAppConfig_constructor_def Get_def
      sample_setOpenApiValidatorOptions sample_files sample_lookup_options lookup_apiSpec_upd
      js_or_def sample_world_sel register_no_throws [OF sample_env_throws]
      del: lookup.simps register.simps)

lemma sample_heap_empty: "sample_heap 12 = Map.empty"
  by (simp add: sample_heap_def)

lemma sample_default_run_value:
  "sample_default_run =
     (Inr \<lparr>app = Ref 21, routingOptions = Undefined, parserLimit = Str ''100kb'',
           definitionPath = ''/api/openapi.yaml'', openApiValidatorOptions = Ref 20\<rparr>,
      sample_world\<lparr>heap := sample_heap(20 := [''apiSpec'' \<mapsto> Str ''/api/openapi.yaml'']),
         next_ref := 22,
         apps := (\<lambda>r. [])(21 :=
           [Cors Undefined,
            BodyParser_urlencoded (Str ''100kb''),
            BodyParser_text (Str ''100kb''),
            BodyParser_json (Str ''100kb''),
            BodyParser_raw ''application/pdf'' (Str ''100kb''),
            Logger (Str ''dev'') None,
            Express_json ''application/vnd.api+json'',
            Express_urlencoded False,
            CookieParser,
            SwaggerUI_serveStaticContent ''openapi: 3.0.0'' Undefined,
            OpenApiValidator_middleware (Ref 20),
            SwaggerParameters_checkParameters,
            SwaggerRouter_initialize Undefined,
            ErrorHandler])\<rparr>)"
  by (simp add: sample_default_run_def ExpressAppConfig_constructor_def Get_def
      setOpenApiValidatorOptions_def express_def pipeline_def configureLogger_def
      sample_files sample_heap_empty js_or_def
      sample_world_sel register_no_throws [OF sample_env_throws] sample_world_def
      del: register.simps)

section \<open>The properties of the specification\<close>

text \<open>
  \<^bold>\<open>C1.\<close> Every successful construction appends to the application handle, after
  whatever the handle held before (nothing, when \<open>express()\<close> made it), exactly this
  chain in this order: the CORS policy; the body parsers urlencoded, text, json and
  raw; the request logger; \<open>express.json\<close>, \<open>express.urlencoded\<close> and the cookie
  parser; the documentation UI; schema validation; parameter normalization; the
  custom middleware of the caller in list order; route dispatch; the error handler.
  The custom middleware therefore stands after validation and normalization and
  before dispatch.
\<close>

theorem constructor_registration_order:
  assumes "ExpressAppConfig_constructor env path appOptions customMiddlewares jsonExpressType w
             = (Inr this, w')"
  shows "\<exists>r spec swaggerDoc.
     app this = Ref r \<and> readFileSync env path = Inr spec \<and> jsyaml_load env spec = Inr swaggerDoc \<and>
     apps w' r =
       (if truthy (lookup (heap w') appOptions ''app'') then apps w r else []) @
       [Cors (lookup (heap w') appOptions ''cors''),
        BodyParser_urlencoded (parserLimit this),
        BodyParser_text (parserLimit this),
        BodyParser_json (parserLimit this),
        BodyParser_raw ''application/pdf'' (parserLimit this),
        configureLogger (heap w') (lookup (heap w') appOptions ''logging''),
        Express_json (case jsonExpressType of Some t \<Rightarrow> t | None \<Rightarrow> ''application/json''),
        Express_urlencoded False,
        CookieParser,
        SwaggerUI_serveStaticContent swaggerDoc (lookup (heap w') appOptions ''swaggerUI''),
        OpenApiValidator_middleware (openApiValidatorOptions this),
        SwaggerParameters_checkParameters] @
       map Custom (case customMiddlewares of Some ms \<Rightarrow> ms | None \<Rightarrow> []) @
       [SwaggerRouter_initialize (routingOptions this),
        ErrorHandler]"
proof -
  from constructor_Inr [OF assms] obtain this1 w1 w2 r spec doc where
    s: "setOpenApiValidatorOptions path appOptions
        (\<lparr>app = Undefined, routingOptions = lookup (heap w) appOptions ''routing'',
          parserLimit = js_or (lookup (heap w) appOptions ''parserLimit'') (Str ''100kb''),
          definitionPath = path, openApiValidatorOptions = Undefined\<rparr>, w) = (Inr this1, w1)"
    and e: "(if truthy (lookup (heap w1) appOptions ''app'')
       then (lookup (heap w1) appOptions ''app'', w1) else express w1) = (Ref r, w2)"
    and t: "this = this1\<lparr>app := Ref r\<rparr>"
    and f: "readFileSync env path = Inr spec" "jsyaml_load env spec = Inr doc"
    and h: "heap w' = heap w1"
    and a: "apps w' = (apps w2)(r := apps w2 r @
         Cors (lookup (heap w1) appOptions ''cors'') #
         pipeline (heap w1) this appOptions doc customMiddlewares
           (case jsonExpressType of Some t \<Rightarrow> t | None \<Rightarrow> ''application/json''))"
    by blast
  from s have a1: "apps w1 = apps w"
    by (rule setOpenApiValidatorOptions_apps)
  have "apps w2 r = (if truthy (lookup (heap w1) appOptions ''app'') then apps w r else [])"
    using e a1 by (auto simp: express_def split: if_splits)
  with a h have "apps w' r =
      (if truthy (lookup (heap w') appOptions ''app'') then apps w r else []) @
         Cors (lookup (heap w') appOptions ''cors'') #
         pipeline (heap w') this appOptions doc customMiddlewares
           (case jsonExpressType of Some t \<Rightarrow> t | None \<Rightarrow> ''application/json'')"
    by simp
  then show ?thesis
    using t f by (simp add: pipeline_def)
qed

theorem constructor_registration_order_witness:
  "fst sample_run =
     Inr \<lparr>app = Ref 4, routingOptions = Ref 1, parserLimit = Str ''100kb'',
           definitionPath = ''/api/openapi.yaml'', openApiValidatorOptions = Ref 3\<rparr>
   \<and> apps sample_world 4 = []
   \<and> apps (snd sample_run) 4 =
     [Cors Undefined,
      BodyParser_urlencoded (Str ''100kb''),
      BodyParser_text (Str ''100kb''),
      BodyParser_json (Str ''100kb''),
      BodyParser_raw ''application/pdf'' (Str ''100kb''),
      Logger (Str ''combined'') (Some (Ref 2)),
      Express_json ''application/json'',
      Express_urlencoded False,
      CookieParser,
      SwaggerUI_serveStaticContent ''openapi: 3.0.0'' Undefined,
      OpenApiValidator_middleware (Ref 3),
      SwaggerParameters_checkParameters,
      Custom ''auth'',
      Custom ''audit'',
      SwaggerRouter_initialize (Ref 1),
      ErrorHandler]"
  using constructor_registration_order [OF sample_run_eq]
  by (simp add: sample_run_fst sample_run_apps sample_world_sel)

text \<open>
  \<^bold>\<open>C2\<close>, as it is stated, fails for a threshold that is not an integer. With
  \<open>errorLimit: 400.5\<close> the predicate compares with \<open>parseInt("400.5") = 400\<close>: a
  response with status 400 lies strictly below the threshold 400.5 and is logged all
  the same.
\<close>

theorem configureLogger_threshold_counterexample:
  "lookup sample_heap (Ref 5) ''errorLimit'' = Num (Fin False 4005 (- 1))
   \<and> (of_int 400 :: rat) < num_value (Fin False 4005 (- 1))
   \<and> (configureLogger sample_heap (Ref 5) :: (string, string) middleware)
       = Logger (Str ''dev'') (Some (Ref 5))
   \<and> skip sample_heap (Ref 5) 400 = Inr False
   \<and> logged sample_heap (configureLogger sample_heap (Ref 5) :: (string, string) middleware) 400"
  by (simp add: configureLogger_def skip_def Get_def sample_lookup_errorLimit sample_lookup_format
      ToString_400_5 parseInt_samples num_value_def del: lookup.simps ToString.simps)

text \<open>
  \<^bold>\<open>C2\<close>, amended. When the threshold is an integer \<open>T\<close>, given as a Number of the
  safe range or as a string holding its decimal numeral, a skip predicate is
  installed; on every response whose status code is an integer of the safe range
  (at most \<open>2\<^sup>5\<^sup>3 - 1\<close> in absolute value) it skips exactly when the status code is
  strictly below \<open>T\<close>, and the response is logged exactly when its status code is
  at least \<open>T\<close>. The bound is needed: \<open>parseInt\<close> gives the double nearest to the
  numeral, and beyond the safe range that double need not be \<open>T\<close>.
\<close>

theorem configureLogger_threshold:
  assumes "lookup h loggerOptions ''errorLimit'' = errorLimit"
    and "(errorLimit = Num (Number_of_int T) \<and> \<bar>T\<bar> \<le> MAX_SAFE_INTEGER)
         \<or> errorLimit = Str (decimal_literal T)"
    and "\<bar>statusCode\<bar> \<le> MAX_SAFE_INTEGER"
  shows "(\<exists>format. (configureLogger h loggerOptions :: ('d, 'h) middleware)
            = Logger format (Some loggerOptions))
       \<and> skip h loggerOptions statusCode = Inr (statusCode < T)
       \<and> logged h (configureLogger h loggerOptions :: ('d, 'h) middleware) statusCode
           = (T \<le> statusCode)"
proof -
  from assms have ne: "ne_undefined loggerOptions"
    by (cases loggerOptions) auto
  from assms(2) obtain limit where p: "parseInt (ToString errorLimit) = Some limit"
    and l: "(statusCode < limit) = (statusCode < T)"
  proof
    assume "errorLimit = Num (Number_of_int T) \<and> \<bar>T\<bar> \<le> MAX_SAFE_INTEGER"
    then have "parseInt (ToString errorLimit) = Some T"
      using parseInt_Number_of_int [of T] by simp
    then show ?thesis
      by (rule that) simp
  next
    assume "errorLimit = Str (decimal_literal T)"
    with less_parseInt_decimal_literal [OF assms(3), of T] show ?thesis
      by (auto intro: that)
  qed
  from assms(2) have ty: "ne_undefined errorLimit"
      "typeof errorLimit = ''string'' \<or> typeof errorLimit = ''number''"
    by auto
  have s: "skip h loggerOptions statusCode = Inr (statusCode < T)"
    using ne p l assms(1) by (simp add: skip_def Get_def)
  have c: "(configureLogger h loggerOptions :: ('d, 'h) middleware)
      = Logger (if ne_undefined (lookup h loggerOptions ''format'')
                 \<and> typeof (lookup h loggerOptions ''format'') = ''string''
              then lookup h loggerOptions ''format'' else Str ''dev'') (Some loggerOptions)"
    using ne ty assms(1) by (simp add: configureLogger_def)
  show ?thesis
    using s by (auto simp: c)
qed

theorem configureLogger_threshold_witness:
  "lookup sample_heap (Ref 2) ''errorLimit'' = Num (Number_of_int 400)
   \<and> \<bar>400\<bar> \<le> MAX_SAFE_INTEGER
   \<and> \<bar>399\<bar> \<le> MAX_SAFE_INTEGER
   \<and> skip sample_heap (Ref 2) 399 = Inr True
   \<and> skip sample_heap (Ref 2) 400 = Inr False
   \<and> \<not> logged sample_heap (configureLogger sample_heap (Ref 2) :: (string, string) middleware) 399
   \<and> logged sample_heap (configureLogger sample_heap (Ref 2) :: (string, string) middleware) 400
   \<and> lookup sample_heap (Ref 11) ''errorLimit'' = Str (decimal_literal 500)
   \<and> \<bar>404\<bar> \<le> MAX_SAFE_INTEGER
   \<and> \<bar>503\<bar> \<le> MAX_SAFE_INTEGER
   \<and> skip sample_heap (Ref 11) 404 = Inr True
   \<and> logged sample_heap (configureLogger sample_heap (Ref 11) :: (string, string) middleware) 503"
  using configureLogger_threshold [where ?'d = string and ?'h = string,
      of sample_heap "Ref 2" "Num (Number_of_int 400)" 400 399]
    configureLogger_threshold [where ?'d = string and ?'h = string,
      of sample_heap "Ref 2" "Num (Number_of_int 400)" 400 400]
    configureLogger_threshold [where ?'d = string and ?'h = string,
      of sample_heap "Ref 11" "Str ''500''" 500 404]
    configureLogger_threshold [where ?'d = string and ?'h = string,
      of sample_heap "Ref 11" "Str ''500''" 500 503]
  by (simp add: sample_lookup_errorLimit decimal_literal_500 MAX_SAFE_INTEGER_def
      del: lookup.simps)

text \<open>
  \<^bold>\<open>C3\<close>, as it is stated, fails for a failure object whose status is present and
  falsy: \<open>error.status || 500\<close> answers \<open>{status: 0}\<close> with 500, not with 0.
\<close>

theorem errorHandler_status_counterexample:
  "lookup sample_heap (Ref 8) ''status'' = Num (Number_of_int 0)
   \<and> Num (Number_of_int 0) \<noteq> Num (Number_of_int 500)
   \<and> errorHandler sample_heap (Ref 8)
       = Inr \<lparr>status = Num (Number_of_int 500),
              json = [(''message'', Str ''unreachable''), (''errors'', Undefined)]\<rparr>"
  by (simp add: errorHandler_def Get_def js_or_def sample_lookup_failure Number_of_int_def
      del: lookup.simps)

text \<open>
  \<^bold>\<open>C3\<close>, amended. For every failure other than \<open>undefined\<close> and \<open>null\<close> the
  handler responds with the value of the \<open>status\<close> field when that value is truthy
  and with 500 otherwise (absent, or one of \<open>0\<close>, \<open>NaN\<close>, the empty string,
  \<open>null\<close>, \<open>false\<close>), and with a JSON body made of exactly the fields
  \<open>message\<close> and \<open>errors\<close> of the failure. Nothing else is done.
\<close>

theorem errorHandler_response:
  assumes "ne_undefined err"
  shows "errorHandler h err
     = Inr \<lparr>status = (if truthy (lookup h err ''status'') then lookup h err ''status''
                      else Num (Number_of_int 500)),
            json = [(''message'', lookup h err ''message''),
                    (''errors'', lookup h err ''errors'')]\<rparr>"
  using assms by (simp add: errorHandler_def Get_def js_or_def)

theorem errorHandler_response_witness:
  "ne_undefined (Ref 9)
   \<and> errorHandler sample_heap (Ref 9)
       = Inr \<lparr>status = Num (Number_of_int 404),
              json = [(''message'', Str ''not found''), (''errors'', Ref 10)]\<rparr>
   \<and> errorHandler sample_heap (Str ''boom'')
       = Inr \<lparr>status = Num (Number_of_int 500),
              json = [(''message'', Undefined), (''errors'', Undefined)]\<rparr>"
  using errorHandler_response [of "Ref 9" sample_heap]
    errorHandler_response [of "Str ''boom''" sample_heap]
  by (simp add: sample_lookup_failure Number_of_int_def del: lookup.simps(1))

text \<open>
  \<^bold>\<open>C4\<close>, as it is stated, fails in its second half: the CORS middleware is
  registered (line 40) before the file is read (line 42). With a missing file and an
  application handle supplied by the caller, construction fails with the I/O error and
  the chain of that handle has grown by one entry.
\<close>

theorem constructor_file_error_counterexample:
  "fst sample_failed_run = Inl (SystemError ''ENOENT'')
   \<and> lookup (heap sample_world) (Ref 0) ''app'' = Ref 4
   \<and> apps sample_world 4 = []
   \<and> apps (snd sample_failed_run) 4 = [Cors Undefined]"
  by (simp add: sample_failed_run_value sample_world_sel sample_lookup_options del: lookup.simps)

text \<open>
  \<^bold>\<open>C4\<close>, amended. Let the options be an object of the caller whose validator
  options are absent or an object and whose application handle is absent or an
  application, and let the creation of the CORS middleware not throw. When the file
  cannot be read, or its text cannot be parsed, construction fails with that very
  error and returns no instance; by then the application handle (the supplied one, or
  the new one) has received the CORS middleware and nothing after it, and every other
  handle is as it was.
\<close>

theorem constructor_file_error:
  assumes ne: "ne_undefined appOptions"
    and al: "allocated w appOptions"
    and v: "\<not> truthy (lookup (heap w) appOptions ''openApiValidator'')
            \<or> (\<exists>r. lookup (heap w) appOptions ''openApiValidator'' = Ref r)"
    and ap: "\<not> truthy (lookup (heap w) appOptions ''app'')
            \<or> (\<exists>r. lookup (heap w) appOptions ''app'' = Ref r)"
    and c: "\<And>c. throws env (Cors c) = None"
    and f: "readFileSync env path = Inl e
            \<or> (\<exists>spec. readFileSync env path = Inr spec \<and> jsyaml_load env spec = Inl e)"
  shows "\<exists>w' a.
      ExpressAppConfig_constructor env path appOptions customMiddlewares jsonExpressType w
        = (Inl e, w')
      \<and> apps w' = (apps w)
          (a := (if truthy (lookup (heap w) appOptions ''app'') then apps w a else [])
                @ [Cors (lookup (heap w) appOptions ''cors'')])
      \<and> (truthy (lookup (heap w) appOptions ''app'') \<longrightarrow>
           lookup (heap w) appOptions ''app'' = Ref a)"
proof -
  let ?init = "\<lparr>app = Undefined, routingOptions = lookup (heap w) appOptions ''routing'',
          parserLimit = js_or (lookup (heap w) appOptions ''parserLimit'') (Str ''100kb''),
          definitionPath = path, openApiValidatorOptions = Undefined\<rparr>"
  let ?cors = "Cors (lookup (heap w) appOptions ''cors'')"
  from setOpenApiValidatorOptions_Inr [OF v al, of path ?init] obtain this1 w1 where
    s: "setOpenApiValidatorOptions path appOptions (?init, w) = (Inr this1, w1)"
    and a1: "apps w1 = apps w"
    and l1: "\<forall>p. p \<noteq> ''apiSpec'' \<longrightarrow> lookup (heap w1) appOptions p = lookup (heap w) appOptions p"
    by blast
  from l1 have la: "lookup (heap w1) appOptions ''app'' = lookup (heap w) appOptions ''app''"
    by simp
  obtain a w2 where
    e: "(if truthy (lookup (heap w1) appOptions ''app'')
         then (lookup (heap w1) appOptions ''app'', w1) else express w1) = (Ref a, w2)"
    and h2: "heap w2 = heap w1"
    and a2: "apps w2 = (if truthy (lookup (heap w) appOptions ''app'') then apps w
                        else (apps w)(a := []))"
    and ta: "truthy (lookup (heap w) appOptions ''app'') \<longrightarrow>
               lookup (heap w) appOptions ''app'' = Ref a"
    using ap la a1 by (auto simp: express_def)
  from l1 h2 have lc: "lookup (heap w2) appOptions ''cors'' = lookup (heap w) appOptions ''cors''"
    by simp
  have r: "register env (Ref a) [?cors] w2 = (Inr (), w2\<lparr>apps := (apps w2)(a := apps w2 a @ [?cors])\<rparr>)"
    by (simp add: create_def use_def c)
  have "ExpressAppConfig_constructor env path appOptions customMiddlewares jsonExpressType w
        = (Inl e, w2\<lparr>apps := (apps w2)(a := apps w2 a @ [?cors])\<rparr>)"
    using f ne s e lc r
    by (auto simp: ExpressAppConfig_constructor_def Get_def simp del: register.simps lookup.simps)
  moreover have "apps (w2\<lparr>apps := (apps w2)(a := apps w2 a @ [?cors])\<rparr>) = (apps w)
          (a := (if truthy (lookup (heap w) appOptions ''app'') then apps w a else [])
                @ [?cors])"
    using a2 by (simp add: fun_eq_iff)
  ultimately show ?thesis
    using ta by blast
qed

theorem constructor_file_error_witness:
  "ne_undefined (Ref 0)
   \<and> allocated sample_world (Ref 0)
   \<and> lookup (heap sample_world) (Ref 0) ''openApiValidator'' = Ref 3
   \<and> lookup (heap sample_world) (Ref 0) ''app'' = Ref 4
   \<and> throws sample_env (Cors Undefined) = None
   \<and> readFileSync sample_env ''/api/missing.yaml'' = Inl (SystemError ''ENOENT'')
   \<and> fst sample_failed_run = Inl (SystemError ''ENOENT'')
   \<and> apps (snd sample_failed_run) = (apps sample_world)(4 := apps sample_world 4 @ [Cors Undefined])
   \<and> fst (ExpressAppConfig_constructor sample_env ''/api/broken.yaml'' (Ref 0) None None
             sample_world)
       = Inl (YAMLException ''unexpected end of the stream'')"
proof -
  have l: "lookup (heap sample_world) (Ref 0) ''openApiValidator'' = Ref 3"
    "lookup (heap sample_world) (Ref 0) ''app'' = Ref 4"
    "lookup (heap sample_world) (Ref 0) ''cors'' = Undefined"
    by (simp_all add: sample_world_sel sample_heap_def)
  have al: "allocated sample_world (Ref 0)"
    by (simp add: allocated_def sample_world_sel)
  have 1: "\<exists>w' a.
      ExpressAppConfig_constructor sample_env ''/api/missing.yaml'' (Ref 0) None None sample_world
        = (Inl (SystemError ''ENOENT''), w')
      \<and> apps w' = (apps sample_world)
          (a := (if truthy (lookup (heap sample_world) (Ref 0) ''app'') then apps sample_world a
                 else [])
                @ [Cors (lookup (heap sample_world) (Ref 0) ''cors'')])
      \<and> (truthy (lookup (heap sample_world) (Ref 0) ''app'') \<longrightarrow>
           lookup (heap sample_world) (Ref 0) ''app'' = Ref a)"
    by (rule constructor_file_error)
      (simp_all add: al l sample_env_throws sample_files del: lookup.simps(1))
  have 2: "\<exists>w' a.
      ExpressAppConfig_constructor sample_env ''/api/broken.yaml'' (Ref 0) None None sample_world
        = (Inl (YAMLException ''unexpected end of the stream''), w')
      \<and> apps w' = (apps sample_world)
          (a := (if truthy (lookup (heap sample_world) (Ref 0) ''app'') then apps sample_world a
                 else [])
                @ [Cors (lookup (heap sample_world) (Ref 0) ''cors'')])
      \<and> (truthy (lookup (heap sample_world) (Ref 0) ''app'') \<longrightarrow>
           lookup (heap sample_world) (Ref 0) ''app'' = Ref a)"
    by (rule constructor_file_error)
      (simp_all add: al l sample_env_throws sample_files del: lookup.simps(1))
  from 1 2 show ?thesis
    using al by (auto simp: l sample_failed_run_def sample_env_throws sample_files
        simp del: lookup.simps)
qed

text \<open>
  \<^bold>\<open>C5.\<close> With no logging options (\<open>undefined\<close>) the logger is created with the
  format \<open>dev\<close> and without a \<open>skip\<close> option, so every response is logged.
\<close>

theorem configureLogger_no_options:
  "(configureLogger h Undefined :: ('d, 'h) middleware) = Logger (Str ''dev'') None
   \<and> logged h (configureLogger h Undefined :: ('d, 'h) middleware) statusCode"
  by (simp add: configureLogger_def)

theorem configureLogger_no_options_witness:
  "(configureLogger sample_heap Undefined :: (string, string) middleware) = Logger (Str ''dev'') None
   \<and> logged sample_heap (configureLogger sample_heap Undefined :: (string, string) middleware) 200"
  using configureLogger_no_options [where ?'d = string and ?'h = string, of sample_heap 200]
  by simp

text \<open>
  \<^bold>\<open>C6.\<close> In every successful construction \<open>setOpenApiValidatorOptions\<close> (line 35)
  returns with a value in \<open>this.openApiValidatorOptions\<close> that the instance keeps
  and that is the argument of \<open>OpenApiValidator.middleware\<close>. When the options carry
  no validator options, it is a new object which at that moment has the one field
  \<open>apiSpec\<close>, the definition path; when they carry an object, it is that very
  object, in which at that moment \<open>apiSpec\<close> is the definition path, whatever it was
  before, and the other fields are as the caller set them. After the construction
  the \<open>apiSpec\<close> of that value is the definition path.
\<close>

theorem validator_options_used:
  assumes "ExpressAppConfig_constructor env path appOptions customMiddlewares jsonExpressType w
             = (Inr this, w')"
  shows "\<exists>v w1.
      (\<forall>t. setOpenApiValidatorOptions path appOptions (t, w)
             = (Inr (t\<lparr>openApiValidatorOptions := v\<rparr>), w1))
      \<and> openApiValidatorOptions this = v
      \<and> (\<not> truthy (lookup (heap w) appOptions ''openApiValidator'') \<longrightarrow>
            v = Ref (next_ref w) \<and> heap w1 (next_ref w) = [''apiSpec'' \<mapsto> Str path])
      \<and> (\<forall>r. lookup (heap w) appOptions ''openApiValidator'' = Ref r \<longrightarrow>
            v = Ref r \<and> heap w1 r = (heap w r)(''apiSpec'' \<mapsto> Str path))
      \<and> (\<exists>a. app this = Ref a \<and> OpenApiValidator_middleware v \<in> set (apps w' a))
      \<and> lookup (heap w') v ''apiSpec'' = Str path"
proof -
  from constructor_Inr [OF assms] obtain this1 w1 w2 r spec doc where
    s: "setOpenApiValidatorOptions path appOptions
        (\<lparr>app = Undefined, routingOptions = lookup (heap w) appOptions ''routing'',
          parserLimit = js_or (lookup (heap w) appOptions ''parserLimit'') (Str ''100kb''),
          definitionPath = path, openApiValidatorOptions = Undefined\<rparr>, w) = (Inr this1, w1)"
    and e: "(if truthy (lookup (heap w1) appOptions ''app'')
       then (lookup (heap w1) appOptions ''app'', w1) else express w1) = (Ref r, w2)"
    and t: "this = this1\<lparr>app := Ref r\<rparr>"
    and f: "readFileSync env path = Inr spec" "jsyaml_load env spec = Inr doc"
    and h: "heap w' = heap w1"
    and a: "apps w' = (apps w2)(r := apps w2 r @
         Cors (lookup (heap w1) appOptions ''cors'') #
         pipeline (heap w1) this appOptions doc customMiddlewares
           (case jsonExpressType of Some t \<Rightarrow> t | None \<Rightarrow> ''application/json''))"
    by blast
  from setOpenApiValidatorOptions_any_instance [OF s] obtain v where
    v: "openApiValidatorOptions this1 = v"
    and every: "\<forall>t. setOpenApiValidatorOptions path appOptions (t, w)
                  = (Inr (t\<lparr>openApiValidatorOptions := v\<rparr>), w1)"
    by auto
  from v t have tv: "openApiValidatorOptions this = v"
    by simp
  note res = setOpenApiValidatorOptions_result [OF s, unfolded v]
  from a tv have "OpenApiValidator_middleware v \<in> set (apps w' r)"
    by (auto simp: pipeline_def)
  moreover have "app this = Ref r"
    using t by simp
  ultimately have used: "\<exists>a. app this = Ref a \<and> OpenApiValidator_middleware v \<in> set (apps w' a)"
    by blast
  have "lookup (heap w') v ''apiSpec'' = Str path"
  proof (cases "truthy (lookup (heap w) appOptions ''openApiValidator'')")
    case False
    with res h show ?thesis by simp
  next
    case True
    with s obtain r' where "lookup (heap w) appOptions ''openApiValidator'' = Ref r'"
      by (cases appOptions; cases "lookup (heap w) appOptions ''openApiValidator''")
        (auto simp: setOpenApiValidatorOptions_def split: if_splits)
    with res h show ?thesis by simp
  qed
  with every tv res used show ?thesis
    by blast
qed

theorem validator_options_used_witness:
  "fst sample_run =
     Inr \<lparr>app = Ref 4, routingOptions = Ref 1, parserLimit = Str ''100kb'',
           definitionPath = ''/api/openapi.yaml'', openApiValidatorOptions = Ref 3\<rparr>
   \<and> lookup (heap sample_world) (Ref 0) ''openApiValidator'' = Ref 3
   \<and> OpenApiValidator_middleware (Ref 3) \<in> set (apps (snd sample_run) 4)
   \<and> lookup (heap (snd sample_run)) (Ref 3) ''apiSpec'' = Str ''/api/openapi.yaml''
   \<and> fst sample_default_run =
       Inr \<lparr>app = Ref 21, routingOptions = Undefined, parserLimit = Str ''100kb'',
             definitionPath = ''/api/openapi.yaml'', openApiValidatorOptions = Ref 20\<rparr>
   \<and> lookup (heap sample_world) (Ref 12) ''openApiValidator'' = Undefined
   \<and> OpenApiValidator_middleware (Ref 20) \<in> set (apps (snd sample_default_run) 21)
   \<and> lookup (heap (snd sample_default_run)) (Ref 20) ''apiSpec'' = Str ''/api/openapi.yaml''"
proof -
  have d: "ExpressAppConfig_constructor sample_env ''/api/openapi.yaml'' (Ref 12) None
       (Some ''application/vnd.api+json'') sample_world
     = (Inr \<lparr>app = Ref 21, routingOptions = Undefined, parserLimit = Str ''100kb'',
             definitionPath = ''/api/openapi.yaml'', openApiValidatorOptions = Ref 20\<rparr>,
        snd sample_default_run)"
    using sample_default_run_value by (simp add: sample_default_run_def)
  have l: "lookup (heap sample_world) (Ref 0) ''openApiValidator'' = Ref 3"
    "lookup (heap sample_world) (Ref 12) ''openApiValidator'' = Undefined"
    by (simp_all add: sample_world_sel sample_heap_def)
  from validator_options_used [OF sample_run_eq] validator_options_used [OF d]
  show ?thesis
    using sample_run_fst by (auto simp: l sample_default_run_value simp del: lookup.simps)
qed

text \<open>
  \<^bold>\<open>C7.\<close> When the options supply no parser limit, a successful construction
  leaves \<open>100kb\<close> in the instance, and the four body parsers registered in a row
  (urlencoded, text, json, raw) were all created with that limit.
\<close>

theorem parserLimit_default:
  assumes "ExpressAppConfig_constructor env path appOptions customMiddlewares jsonExpressType w
             = (Inr this, w')"
    and "lookup (heap w) appOptions ''parserLimit'' = Undefined"
  shows "parserLimit this = Str ''100kb'' \<and>
         (\<exists>r pre post. app this = Ref r \<and>
            apps w' r =
              pre @
              [BodyParser_urlencoded (Str ''100kb''),
               BodyParser_text (Str ''100kb''),
               BodyParser_json (Str ''100kb''),
               BodyParser_raw ''application/pdf'' (Str ''100kb'')] @
              post)"
proof -
  from constructor_Inr [OF assms(1)] obtain this1 w1 w2 r spec doc where
    s: "setOpenApiValidatorOptions path appOptions
        (\<lparr>app = Undefined, routingOptions = lookup (heap w) appOptions ''routing'',
          parserLimit = js_or (lookup (heap w) appOptions ''parserLimit'') (Str ''100kb''),
          definitionPath = path, openApiValidatorOptions = Undefined\<rparr>, w) = (Inr this1, w1)"
    and e: "(if truthy (lookup (heap w1) appOptions ''app'')
       then (lookup (heap w1) appOptions ''app'', w1) else express w1) = (Ref r, w2)"
    and t: "this = this1\<lparr>app := Ref r\<rparr>"
    and f: "readFileSync env path = Inr spec" "jsyaml_load env spec = Inr doc"
    and h: "heap w' = heap w1"
    and a: "apps w' = (apps w2)(r := apps w2 r @
         Cors (lookup (heap w1) appOptions ''cors'') #
         pipeline (heap w1) this appOptions doc customMiddlewares
           (case jsonExpressType of Some t \<Rightarrow> t | None \<Rightarrow> ''application/json''))"
    by blast
  from setOpenApiValidatorOptions_this [OF s] t assms(2)
  have p: "parserLimit this = Str ''100kb''"
    by (auto simp: js_or_def)
  define pre where "pre = apps w2 r @ [Cors (lookup (heap w1) appOptions ''cors'')]"
  define post where "post =
      drop 4 (pipeline (heap w1) this appOptions doc customMiddlewares
           (case jsonExpressType of Some t \<Rightarrow> t | None \<Rightarrow> ''application/json''))"
  have "apps w' r =
      pre @
      [BodyParser_urlencoded (Str ''100kb''),
       BodyParser_text (Str ''100kb''),
       BodyParser_json (Str ''100kb''),
       BodyParser_raw ''application/pdf'' (Str ''100kb'')] @
      post"
    using a p by (simp add: pipeline_def pre_def post_def)
  moreover have "app this = Ref r"
    using t by simp
  ultimately show ?thesis
    using p by blast
qed

theorem parserLimit_default_witness:
  "fst sample_run =
     Inr \<lparr>app = Ref 4, routingOptions = Ref 1, parserLimit = Str ''100kb'',
           definitionPath = ''/api/openapi.yaml'', openApiValidatorOptions = Ref 3\<rparr>
   \<and> lookup (heap sample_world) (Ref 0) ''parserLimit'' = Undefined
   \<and> take 4 (drop 1 (apps (snd sample_run) 4)) =
       [BodyParser_urlencoded (Str ''100kb''),
        BodyParser_text (Str ''100kb''),
        BodyParser_json (Str ''100kb''),
        BodyParser_raw ''application/pdf'' (Str ''100kb'')]"
proof -
  have l: "lookup (heap sample_world) (Ref 0) ''parserLimit'' = Undefined"
    by (simp add: sample_world_sel sample_lookup_options del: lookup.simps(1))
  from parserLimit_default [OF sample_run_eq l] show ?thesis
    by (simp add: sample_run_fst sample_run_apps l del: lookup.simps(1))
qed

text \<open>
  \<^bold>\<open>C8.\<close> On a successfully constructed instance \<open>getApp\<close> returns the field
  \<open>app\<close> of the instance, which is an application handle (an object, not \<open>null\<close> or
  \<open>undefined\<close>), the one whose chain the constructor has completed with the error
  handler; the call leaves the instance and the world as they are, and so a further
  call returns the same handle.
\<close>

theorem getApp_idempotent:
  assumes "ExpressAppConfig_constructor env path appOptions customMiddlewares jsonExpressType w
             = (Inr this, w')"
  shows "fst (getApp (this, w')) = app this \<and>
         (\<exists>r. fst (getApp (this, w')) = Ref r
              \<and> apps w' r \<noteq> [] \<and> last (apps w' r) = ErrorHandler) \<and>
         snd (getApp (this, w')) = (this, w') \<and>
         getApp (snd (getApp (this, w'))) = getApp (this, w')"
  using constructor_Inr_last [OF assms] by (simp add: getApp_def)

theorem getApp_idempotent_witness:
  "fst (getApp (\<lparr>app = Ref 4, routingOptions = Ref 1, parserLimit = Str ''100kb'',
           definitionPath = ''/api/openapi.yaml'', openApiValidatorOptions = Ref 3\<rparr>,
          snd sample_run)) = Ref 4
   \<and> last (apps (snd sample_run) 4) = ErrorHandler
   \<and> getApp (snd (getApp (\<lparr>app = Ref 4, routingOptions = Ref 1, parserLimit = Str ''100kb'',
           definitionPath = ''/api/openapi.yaml'', openApiValidatorOptions = Ref 3\<rparr>,
          snd sample_run)))
     = (Ref 4,
        \<lparr>app = Ref 4, routingOptions = Ref 1, parserLimit = Str ''100kb'',
           definitionPath = ''/api/openapi.yaml'', openApiValidatorOptions = Ref 3\<rparr>,
        snd sample_run)
   \<and> fst (getApp (\<lparr>app = Ref 21, routingOptions = Undefined, parserLimit = Str ''100kb'',
             definitionPath = ''/api/openapi.yaml'', openApiValidatorOptions = Ref 20\<rparr>,
          snd sample_default_run)) = Ref 21
   \<and> last (apps (snd sample_default_run) 21) = ErrorHandler"
proof -
  have d: "ExpressAppConfig_constructor sample_env ''/api/openapi.yaml'' (Ref 12) None
       (Some ''application/vnd.api+json'') sample_world
     = (Inr \<lparr>app = Ref 21, routingOptions = Undefined, parserLimit = Str ''100kb'',
             definitionPath = ''/api/openapi.yaml'', openApiValidatorOptions = Ref 20\<rparr>,
        snd sample_default_run)"
    using sample_default_run_value by (simp add: sample_default_run_def)
  from getApp_idempotent [OF sample_run_eq] getApp_idempotent [OF d]
  show ?thesis
    by (auto simp: prod_eq_iff)
qed



text \<open>
  \<^bold>\<open>C10.\<close> When \<open>errorLimit\<close> is a string in which \<open>parseInt\<close> finds no integer,
  a skip predicate is installed and it returns false for every response, so every
  response is logged. When the type of \<open>errorLimit\<close> is neither string nor number
  (\<open>undefined\<close> and \<open>null\<close> included), no skip predicate is installed.
\<close>

theorem configureLogger_errorLimit_unusable:
  "(lookup h loggerOptions ''errorLimit'' = Str s \<and> parseInt s = None \<longrightarrow>
      (\<exists>format. (configureLogger h loggerOptions :: ('d, 'h) middleware)
         = Logger format (Some loggerOptions))
      \<and> skip h loggerOptions statusCode = Inr False
      \<and> logged h (configureLogger h loggerOptions :: ('d, 'h) middleware) statusCode)
   \<and> (typeof (lookup h loggerOptions ''errorLimit'') \<noteq> ''string''
      \<and> typeof (lookup h loggerOptions ''errorLimit'') \<noteq> ''number'' \<longrightarrow>
      (\<exists>format. (configureLogger h loggerOptions :: ('d, 'h) middleware) = Logger format None))"
proof (intro conjI impI)
  assume a: "lookup h loggerOptions ''errorLimit'' = Str s \<and> parseInt s = None"
  then have ne: "ne_undefined loggerOptions"
    by (cases loggerOptions) auto
  have c: "(configureLogger h loggerOptions :: ('d, 'h) middleware)
      = Logger (if ne_undefined (lookup h loggerOptions ''format'')
                 \<and> typeof (lookup h loggerOptions ''format'') = ''string''
              then lookup h loggerOptions ''format'' else Str ''dev'') (Some loggerOptions)"
    using ne a by (simp add: configureLogger_def)
  then show "\<exists>format. (configureLogger h loggerOptions :: ('d, 'h) middleware)
         = Logger format (Some loggerOptions)" ..
  show s: "skip h loggerOptions statusCode = Inr False"
    using ne a by (simp add: skip_def Get_def)
  show "logged h (configureLogger h loggerOptions :: ('d, 'h) middleware) statusCode"
    using s by (simp add: c)
next
  assume "typeof (lookup h loggerOptions ''errorLimit'') \<noteq> ''string''
      \<and> typeof (lookup h loggerOptions ''errorLimit'') \<noteq> ''number''"
  then show "\<exists>format. (configureLogger h loggerOptions :: ('d, 'h) middleware) = Logger format None"
    by (simp add: configureLogger_def Let_def)
qed

theorem configureLogger_errorLimit_unusable_witness:
  "lookup sample_heap (Ref 6) ''errorLimit'' = Str ''errors'' \<and> parseInt ''errors'' = None
   \<and> skip sample_heap (Ref 6) 200 = Inr False
   \<and> logged sample_heap (configureLogger sample_heap (Ref 6) :: (string, string) middleware) 200
   \<and> typeof (lookup sample_heap (Ref 7) ''errorLimit'') = ''boolean''
   \<and> (configureLogger sample_heap (Ref 7) :: (string, string) middleware) = Logger (Str ''dev'') None"
  using configureLogger_errorLimit_unusable [where ?'d = string and ?'h = string,
      of sample_heap "Ref 6" "''errors''" 200]
    configureLogger_errorLimit_unusable [where ?'d = string and ?'h = string,
      of sample_heap "Ref 7" "''''" 200]
  by (simp add: sample_lookup_errorLimit sample_lookup_format parseInt_samples configureLogger_def
      del: lookup.simps(1))

end
